theory Spec2Isabelle
  imports Complex_Main "HOL-Library.Word"
begin

unbundle bit_operations_syntax

section \<open>Go strings and byte slices\<close>

text \<open>
  A Go \<open>string\<close> and a Go \<open>[]byte\<close> are both sequences of bytes. A string is a
  \<^typ>\<open>string\<close> (one \<^typ>\<open>char\<close> per byte), a byte slice a list of 8-bit words.
  The functions of this section are the ones of Go's \<open>strings\<close> package that the two
  source files call, written out on byte lists.
\<close>

type_synonym bytes = "8 word list"

definition HasPrefix :: "string \<Rightarrow> string \<Rightarrow> bool" where
  "HasPrefix s p = (take (length p) s = p)"

definition HasSuffix :: "string \<Rightarrow> string \<Rightarrow> bool" where
  "HasSuffix s p = (length p \<le> length s \<and> drop (length s - length p) s = p)"

definition TrimPrefix :: "string \<Rightarrow> string \<Rightarrow> string" where
  "TrimPrefix s p = (if HasPrefix s p then drop (length p) s else s)"

definition TrimSuffix :: "string \<Rightarrow> string \<Rightarrow> string" where
  "TrimSuffix s p = (if HasSuffix s p then take (length s - length p) s else s)"

text \<open>\<open>strings.Contains(s, substr)\<close>: \<open>substr\<close> occurs in \<open>s\<close> as a contiguous run.\<close>

fun Contains :: "string \<Rightarrow> string \<Rightarrow> bool" where
  "Contains [] sub = (sub = [])"
| "Contains (c # s) sub = (HasPrefix (c # s) sub \<or> Contains s sub)"


definition TrimLeft :: "string \<Rightarrow> string \<Rightarrow> string" where
  "TrimLeft s cutset = dropWhile (\<lambda>c. c \<in> set cutset) s"

definition TrimRight :: "string \<Rightarrow> string \<Rightarrow> string" where
  "TrimRight s cutset = rev (dropWhile (\<lambda>c. c \<in> set cutset) (rev s))"

fun Join :: "string list \<Rightarrow> string \<Rightarrow> string" where
  "Join [] sep = []"
| "Join [a] sep = a"
| "Join (a # b # rest) sep = a @ sep @ Join (b # rest) sep"

text \<open>
  \<open>strings.Split(s, sep)\<close> for a separator of one byte (the source splits at \<open>" "\<close>):
  \<open>cur\<close> holds the bytes of the field being read, last byte first.
\<close>

fun splitOn :: "char \<Rightarrow> string \<Rightarrow> string \<Rightarrow> string list" where
  "splitOn sep cur [] = [rev cur]"
| "splitOn sep cur (c # s) =
     (if c = sep then rev cur # splitOn sep [] s else splitOn sep (c # cur) s)"

definition Split :: "string \<Rightarrow> char \<Rightarrow> string list" where
  "Split s sep = splitOn sep [] s"

text \<open>
  \<open>strings.ToUpper\<close> and \<open>strings.ToLower\<close> on bytes: an ASCII letter changes case, every
  other byte stays. (The source passes them hexadecimal digits and \<open>CA:true\<close> or
  \<open>CA:false\<close> only.)
\<close>

definition upperByte :: "char \<Rightarrow> char" where
  "upperByte c =
     (case map_of (zip ''abcdefghijklmnopqrstuvwxyz'' ''ABCDEFGHIJKLMNOPQRSTUVWXYZ'') c of
        Some u \<Rightarrow> u | None \<Rightarrow> c)"

definition lowerByte :: "char \<Rightarrow> char" where
  "lowerByte c =
     (case map_of (zip ''ABCDEFGHIJKLMNOPQRSTUVWXYZ'' ''abcdefghijklmnopqrstuvwxyz'') c of
        Some l \<Rightarrow> l | None \<Rightarrow> c)"

definition ToUpper :: "string \<Rightarrow> string" where
  "ToUpper s = map upperByte s"

definition ToLower :: "string \<Rightarrow> string" where
  "ToLower s = map lowerByte s"

subsection \<open>strconv\<close>

fun digits10 :: "nat \<Rightarrow> string" where
  "digits10 n =
     (if n < 10 then [''0123456789'' ! n]
      else digits10 (n div 10) @ [''0123456789'' ! (n mod 10)])"

declare digits10.simps [simp del]

text \<open>\<open>strconv.Itoa\<close>, and \<open>%d\<close> of an integer: decimal, with \<open>-\<close> before a negative.\<close>

definition Itoa :: "int \<Rightarrow> string" where
  "Itoa i = (if i < 0 then ''-'' @ digits10 (nat (- i)) else digits10 (nat i))"

definition digitValue :: "char \<Rightarrow> nat option" where
  "digitValue c =
     map_of (zip ''0123456789'' [0, 1, 2, 3, 4, 5, 6, 7, 8, 9]) c"

fun decimalValue :: "nat \<Rightarrow> string \<Rightarrow> nat option" where
  "decimalValue n [] = Some n"
| "decimalValue n (c # s) =
     (case digitValue c of None \<Rightarrow> None | Some d \<Rightarrow> decimalValue (n * 10 + d) s)"

text \<open>
  \<open>n, _ := strconv.Atoi(s)\<close> on a 64-bit platform, the error dropped: one optional sign,
  then decimal digits only, one at least. A syntax error gives 0; a number out of the
  range of \<open>int\<close> gives the nearest bound.
\<close>

definition Atoi :: "string \<Rightarrow> int" where
  "Atoi s =
     (let neg = (case s of c # _ \<Rightarrow> c = CHR ''-'' | [] \<Rightarrow> False);
          ds = (case s of c # r \<Rightarrow> if c = CHR ''-'' \<or> c = CHR ''+'' then r else s | [] \<Rightarrow> s)
      in if ds = [] then 0
         else (case decimalValue 0 ds of
                 None \<Rightarrow> 0
               | Some n \<Rightarrow>
                   if neg then (if int n > 2 ^ 63 then - (2 ^ 63) else - int n)
                   else (if int n \<ge> 2 ^ 63 then 2 ^ 63 - 1 else int n)))"

subsection \<open>encoding/hex and fmt\<close>

definition hexdigit :: "nat \<Rightarrow> char" where
  "hexdigit n = ''0123456789abcdef'' ! n"

definition hexByte :: "8 word \<Rightarrow> string" where
  "hexByte b = [hexdigit (unat b div 16), hexdigit (unat b mod 16)]"

text \<open>\<open>hex.EncodeToString\<close>: two lowercase digits per byte.\<close>

definition EncodeToString :: "bytes \<Rightarrow> string" where
  "EncodeToString bs = concat (map hexByte bs)"

text \<open>
  \<open>fmt.Sprintf("%02x", sum)\<close> of a byte slice writes the same digits. The width 2 pads
  an output shorter than two bytes, which is the output of an empty slice only; the
  slice here is a digest of 20 or 32 bytes.
\<close>

definition Sprintf_02x :: "bytes \<Rightarrow> string" where
  "Sprintf_02x bs = EncodeToString bs"

fun hexUpper :: "nat \<Rightarrow> string" where
  "hexUpper n =
     (if n < 16 then [''0123456789ABCDEF'' ! n]
      else hexUpper (n div 16) @ [''0123456789ABCDEF'' ! (n mod 16)])"

declare hexUpper.simps [simp del]

text \<open>
  \<open>fmt.Sprintf("%X", serialNumber)\<close> of a \<open>*big.Int\<close>: \<open><nil>\<close> for a nil pointer, else
  the uppercase hexadecimal digits, \<open>-\<close> before a negative number.
\<close>

definition Sprintf_X :: "int option \<Rightarrow> string" where
  "Sprintf_X x =
     (case x of
        None \<Rightarrow> ''<nil>''
      | Some i \<Rightarrow> if i < 0 then ''-'' @ hexUpper (nat (- i)) else hexUpper (nat i))"

text \<open>
  \<open>fmt.Sprintf("%d", cert.PolicyIdentifiers)\<close>. The argument is a slice of
  \<open>asn1.ObjectIdentifier\<close>, each a slice of \<open>int\<close>. The verb \<open>%d\<close> does not call
  \<open>String()\<close> (fmt calls it for \<open>%v\<close>, \<open>%s\<close>, \<open>%x\<close>, \<open>%X\<close> and \<open>%q\<close> only), so each
  level is written as a slice: \<open>[\<close>, the elements with one space between, \<open>]\<close>. An
  identifier 2.23.140.1.2.1 is written \<open>[2 23 140 1 2 1]\<close>.
\<close>

definition Sprintf_d_ints :: "int list \<Rightarrow> string" where
  "Sprintf_d_ints oid = ''['' @ Join (map Itoa oid) '' '' @ '']''"

definition Sprintf_d :: "int list list \<Rightarrow> string" where
  "Sprintf_d oids = ''['' @ Join (map Sprintf_d_ints oids) '' '' @ '']''"

text \<open>\<open>big.Int.BitLen\<close>: the length of the absolute value in bits, 0 for 0.\<close>

fun bitLength :: "nat \<Rightarrow> nat" where
  "bitLength n = (if n = 0 then 0 else Suc (bitLength (n div 2)))"

declare bitLength.simps [simp del]

definition BitLen :: "int \<Rightarrow> int" where
  "BitLen x = int (bitLength (nat \<bar>x\<bar>))"

subsection \<open>encoding/json\<close>

text \<open>
  \<open>json.Marshal\<close> of a string (HTML escaping on, as \<open>Marshal\<close> has it): the double
  quote and the backslash get a backslash before them; backspace, form feed, newline,
  carriage return and tab their short form; every other byte below 0x20 and the bytes
  of \<open><\<close>, \<open>>\<close> and \<open>&\<close> the form backslash, u00 and two digits; the code points
  U+2028 and U+2029 the forms backslash u2028 and backslash u2029; a byte that starts no
  valid UTF-8 sequence becomes backslash ufffd; all else is copied.
  \<open>DecodeRuneSize\<close> is the width \<open>utf8.DecodeRuneInString\<close> returns for a string whose
  first byte is 0x80 or more, with 0 for an invalid sequence.
\<close>

definition inRange :: "nat \<Rightarrow> nat \<Rightarrow> char \<Rightarrow> bool" where
  "inRange lo hi c = (lo \<le> of_char c \<and> (of_char c :: nat) \<le> hi)"

definition DecodeRuneSize :: "string \<Rightarrow> nat" where
  "DecodeRuneSize s =
     (case s of
        [] \<Rightarrow> 0
      | b0 # rest \<Rightarrow>
          (let n = of_char b0 :: nat in
           if 0xC2 \<le> n \<and> n \<le> 0xDF then
             (case rest of
                b1 # _ \<Rightarrow> if inRange 0x80 0xBF b1 then 2 else 0
              | _ \<Rightarrow> 0)
           else if 0xE0 \<le> n \<and> n \<le> 0xEF then
             (case rest of
                b1 # b2 # _ \<Rightarrow>
                  if inRange (if n = 0xE0 then 0xA0 else 0x80) (if n = 0xED then 0x9F else 0xBF) b1
                     \<and> inRange 0x80 0xBF b2
                  then 3 else 0
              | _ \<Rightarrow> 0)
           else if 0xF0 \<le> n \<and> n \<le> 0xF4 then
             (case rest of
                b1 # b2 # b3 # _ \<Rightarrow>
                  if inRange (if n = 0xF0 then 0x90 else 0x80) (if n = 0xF4 then 0x8F else 0xBF) b1
                     \<and> inRange 0x80 0xBF b2 \<and> inRange 0x80 0xBF b3
                  then 4 else 0
              | _ \<Rightarrow> 0)
           else 0))"

definition escapeByte :: "char \<Rightarrow> string" where
  "escapeByte b =
     (let n = of_char b :: nat in
      if n = 0x22 \<or> n = 0x5C then [CHR 0x5C, b]
      else if n = 0x08 then [CHR 0x5C, CHR ''b'']
      else if n = 0x0C then [CHR 0x5C, CHR ''f'']
      else if n = 0x0A then [CHR 0x5C, CHR ''n'']
      else if n = 0x0D then [CHR 0x5C, CHR ''r'']
      else if n = 0x09 then [CHR 0x5C, CHR ''t'']
      else if n < 0x20 \<or> n = 0x3C \<or> n = 0x3E \<or> n = 0x26
        then CHR 0x5C # ''u00'' @ [hexdigit (n div 16), hexdigit (n mod 16)]
      else [b])"

fun escapeJSON :: "string \<Rightarrow> string" where
  "escapeJSON [] = []"
| "escapeJSON (b # rest) =
     (if (of_char b :: nat) < 0x80 then escapeByte b @ escapeJSON rest
      else (case DecodeRuneSize (b # rest) of
              0 \<Rightarrow> CHR 0x5C # ''ufffd'' @ escapeJSON rest
            | Suc k \<Rightarrow>
                (if take 3 (b # rest) = [CHR 0xE2, CHR 0x80, CHR 0xA8] then CHR 0x5C # ''u2028''
                 else if take 3 (b # rest) = [CHR 0xE2, CHR 0x80, CHR 0xA9] then CHR 0x5C # ''u2029''
                 else take (Suc k) (b # rest))
                @ escapeJSON (drop k rest)))"

definition jsonString :: "string \<Rightarrow> string" where
  "jsonString s = [CHR 0x22] @ escapeJSON s @ [CHR 0x22]"

section \<open>The data of the parser\<close>

subsection \<open>Errors and panics\<close>

text \<open>
  Every error the two files return and every way they can panic is a value. The
  constructors named \<open>Panic...\<close> are run-time panics (they unwind the goroutine); the
  others are \<open>error\<close> values returned to the caller, with the library's message where
  the error comes from a library call.
\<close>

datatype error =
    ErrEntryIsNil
  | ErrConversion string
  | ErrNoCertificate
  | ErrParseCertificate string
  | ErrDownloadFailed string
  | ErrStatusCode int
  | ErrFirstRow string
  | ErrKeyColumn
  | ErrValueColumn
  | ErrReadRecord string
  | ErrLogList string
  | PanicNilDereference
  | PanicTypeAssertion
  | PanicIndexOutOfRange
  | PanicLogListRead string

definition isPanic :: "error \<Rightarrow> bool" where
  "isPanic e =
     (case e of
        PanicNilDereference \<Rightarrow> True
      | PanicTypeAssertion \<Rightarrow> True
      | PanicIndexOutOfRange \<Rightarrow> True
      | PanicLogListRead _ \<Rightarrow> True
      | _ \<Rightarrow> False)"

text \<open>Sequencing of steps that can fail: the first failure is the result.\<close>

definition andThen :: "error + 'a \<Rightarrow> ('a \<Rightarrow> error + 'b) \<Rightarrow> error + 'b" where
  "andThen r f = (case r of Inl e \<Rightarrow> Inl e | Inr a \<Rightarrow> f a)"

text \<open>\<open>*p\<close> for a pointer \<open>p\<close>: a nil pointer panics.\<close>

definition deref :: "'a option \<Rightarrow> error + 'a" where
  "deref p = (case p of None \<Rightarrow> Inl PanicNilDereference | Some a \<Rightarrow> Inr a)"

subsection \<open>pkix.Name and x509.Certificate\<close>

text \<open>
  The types of \<open>certificate-transparency-go\<close> that the parser reads, with the fields it
  reads. A slice the source tests against \<open>nil\<close> is an option (\<open>None\<close> is the nil
  slice); \<open>elems\<close> gives its elements. The value of an attribute is an \<open>interface{}\<close>:
  the ASN.1 decoder stores a string, an integer, an object identifier or nothing (an
  unknown tag); \<open>OtherValue\<close> stands for the remaining kinds (octet string, bit string,
  time) and carries the text \<open>json.Marshal\<close> writes for the value.
\<close>

definition elems :: "'a list option \<Rightarrow> 'a list" where
  "elems xs = (case xs of None \<Rightarrow> [] | Some l \<Rightarrow> l)"

datatype AttributeValue =
    StringValue string
  | IntValue int
  | OIDValue "int list"
  | NilValue
  | OtherValue string

record AttributeTypeAndValue =
  Type :: "int list"
  Value :: AttributeValue

record Name =
  Country :: "string list option"
  Organization :: "string list option"
  OrganizationalUnit :: "string list option"
  Locality :: "string list option"
  Province :: "string list option"
  StreetAddress :: "string list option"
  PostalCode :: "string list option"
  SerialNumber :: string
  CommonName :: string
  Names :: "AttributeTypeAndValue list"

record Extension =
  Id :: "int list"
  Critical :: bool
  ExtnValue :: bytes

datatype SignatureAlgorithm =
    UnknownSignatureAlgorithm
  | MD2WithRSA
  | MD5WithRSA
  | SHA1WithRSA
  | SHA256WithRSA
  | SHA384WithRSA
  | SHA512WithRSA
  | DSAWithSHA1
  | DSAWithSHA256
  | ECDSAWithSHA1
  | ECDSAWithSHA256
  | ECDSAWithSHA384
  | ECDSAWithSHA512
  | SHA256WithRSAPSS
  | SHA384WithRSAPSS
  | SHA512WithRSAPSS
  | PureEd25519

text \<open>
  \<open>NotBefore\<close> and \<open>NotAfter\<close> hold what \<open>.Unix()\<close> returns for the certificate's times,
  \<open>IPAddresses\<close> what \<open>.String()\<close> returns for each address, \<open>SerialNumber\<close> the value of
  the \<open>*big.Int\<close> (\<open>None\<close> for nil). \<open>PublicKeyAlgorithm\<close> and \<open>KeyUsage\<close> are Go
  integer types, which the source compares with integer literals and masks.
\<close>

record Certificate =
  Raw :: bytes
  RawSubjectPublicKeyInfo :: bytes
  SignatureAlgorithm :: SignatureAlgorithm
  PublicKeyAlgorithm :: int
  SerialNumber :: "int option"
  Issuer :: Name
  Subject :: Name
  NotBefore :: int
  NotAfter :: int
  KeyUsage :: int
  Extensions :: "Extension list"
  IsCA :: bool
  SubjectKeyId :: bytes
  AuthorityKeyId :: bytes
  OCSPServer :: "string list"
  IssuingCertificateURL :: "string list"
  DNSNames :: "string list option"
  EmailAddresses :: "string list"
  IPAddresses :: "string list"
  PolicyIdentifiers :: "int list list"

text \<open>The object identifiers of the extensions, as package \<open>x509\<close> declares them.\<close>

definition OIDExtensionSubjectKeyId :: "int list" where
  "OIDExtensionSubjectKeyId = [2, 5, 29, 14]"

definition OIDExtensionKeyUsage :: "int list" where
  "OIDExtensionKeyUsage = [2, 5, 29, 15]"

definition OIDExtensionSubjectAltName :: "int list" where
  "OIDExtensionSubjectAltName = [2, 5, 29, 17]"

definition OIDExtensionBasicConstraints :: "int list" where
  "OIDExtensionBasicConstraints = [2, 5, 29, 19]"

definition OIDExtensionAuthorityKeyId :: "int list" where
  "OIDExtensionAuthorityKeyId = [2, 5, 29, 35]"

definition OIDExtensionAuthorityInfoAccess :: "int list" where
  "OIDExtensionAuthorityInfoAccess = [1, 3, 6, 1, 5, 5, 7, 1, 1]"

definition OIDExtensionCTPoison :: "int list" where
  "OIDExtensionCTPoison = [1, 3, 6, 1, 4, 1, 11129, 2, 4, 3]"

subsection \<open>ct.RawLogEntry and ct.LogEntry\<close>

text \<open>
  An \<open>ASN1Cert\<close> is a struct of one field, \<open>Data\<close>: it is the byte slice here. \<open>Leaf\<close>
  is the Merkle tree leaf, which only \<open>ToLogEntry\<close> reads.
\<close>

record RawLogEntry =
  Index :: int
  Leaf :: bytes
  Cert :: bytes
  Chain :: "bytes list"

record Precertificate =
  Submitted :: bytes
  TBSCertificate :: "Certificate option"

record LogEntry =
  X509Cert :: "Certificate option"
  Precert :: "Precertificate option"
  Chain :: "bytes list"

subsection \<open>The records of package certstream\<close>

text \<open>
  The structs the parser fills, with the fields it assigns. A \<open>*string\<close> is a string
  option. Ranges that the source only appends to are lists (a nil slice and an empty one
  are both the empty list). The field \<open>O\<close> of \<open>Subject\<close> is written \<open>O'\<close>.
  \<open>Seen\<close> is \<open>float64(time.Now().UnixMilli()) / 1_000\<close>, kept as the exact quotient.
\<close>

record Subject =
  C :: "string option"
  CN :: "string option"
  L :: "string option"
  O' :: "string option"
  OU :: "string option"
  ST :: "string option"
  Aggregated :: "string option"

record Extensions =
  AuthorityInfoAccess :: "string option"
  AuthorityKeyIdentifier :: "string option"
  BasicConstraints :: "string option"
  KeyUsage :: "string option"
  SubjectAltName :: "string option"
  SubjectKeyIdentifier :: "string option"
  CTLPoisonByte :: bool

record CertTypeExt =
  SANCount :: int
  WildcardSANCount :: int
  SingleSANCount :: int

record LeafCert =
  AllDomains :: "string list"
  AllRegDomains :: "string list"
  Extensions :: Extensions
  NotAfter :: int
  NotBefore :: int
  SerialNumber :: string
  SignatureAlgorithm :: string
  KeyType :: string
  IsCA :: bool
  Subject :: Subject
  Issuer :: Subject
  AsDER :: string
  Fingerprint :: string
  SHA1 :: string
  SHA256 :: string
  ValidationType :: string
  CertType :: string
  CertTypeExt :: CertTypeExt
  CAOwner :: string

record Source =
  Name :: string
  URL :: string
  Operator :: string
  NormalizedURL :: string

record Data =
  CertIndex :: int
  CertLink :: string
  Seen :: real
  Source :: Source
  UpdateType :: string
  LeafCert :: LeafCert
  Chain :: "LeafCert list"

record Entry =
  Data :: Data
  MessageType :: string

subsection \<open>The libraries the parser calls\<close>

text \<open>
  Functions of other packages whose tables and algorithms are not part of this
  repository are parameters of the model: the public suffix list, the IP address parser,
  the two hash functions, base64, and the X.509 and CT decoders. \<open>None\<close> and \<open>Inl\<close>
  are a call that returns an error. \<open>ParseIP\<close> tells whether \<open>net.ParseIP\<close> returns an
  address (not nil).
\<close>

datatype PublicKey =
    RSAPublicKey int
  | DSAPublicKey int
  | ECDSAPublicKey int
  | OtherPublicKey

record library =
  ParseIP :: "string \<Rightarrow> bool"
  EffectiveTLDPlusOne :: "string \<Rightarrow> string option"
  sha1_Sum :: "bytes \<Rightarrow> bytes"
  sha256_Sum :: "bytes \<Rightarrow> bytes"
  base64_EncodeToString :: "bytes \<Rightarrow> string"
  base64_DecodeString :: "string \<Rightarrow> bytes"
  ParsePKIXPublicKey :: "bytes \<Rightarrow> PublicKey option"
  ParseCertificate :: "bytes \<Rightarrow> string + Certificate"
  ToLogEntry :: "RawLogEntry \<Rightarrow> string + LogEntry"

text \<open>
  The package-level map \<open>CAOwners\<close>: \<open>None\<close> is the nil map, which reads as an empty
  one.
\<close>

type_synonym catalog = "(string \<rightharpoonup> string) option"

definition lookupOwner :: "catalog \<Rightarrow> string \<Rightarrow> string option" where
  "lookupOwner owners k = (case owners of None \<Rightarrow> None | Some m \<Rightarrow> m k)"

section \<open>ct-watcher.go: normalizeCtlogURL\<close>

text \<open>
  \<^verbatim>\<open>input = strings.TrimPrefix(input, "https://")\<close>,
  \<^verbatim>\<open>input = strings.TrimPrefix(input, "http://")\<close>,
  \<^verbatim>\<open>input = strings.TrimSuffix(input, "/")\<close>: each call removes one occurrence at most.
\<close>

definition normalizeCtlogURL :: "string \<Rightarrow> string" where
  "normalizeCtlogURL input =
     TrimSuffix (TrimPrefix (TrimPrefix input ''https://'') ''http://'') ''/''"

section \<open>ct-parser.go\<close>

subsection \<open>ParseNameJSON and the aggregated subject\<close>

text \<open>
  \<open>JSONName\<close>, its fields named by their JSON keys (the Go field names are those of
  \<open>pkix.Name\<close>). Every field is \<open>omitempty\<close>.
\<close>

record JSONName =
  common_name :: string
  serial_number :: string
  country :: string
  organization :: string
  organizational_unit :: string
  locality :: string
  province :: string
  street_address :: string
  postal_code :: string
  names :: "AttributeValue list"

text \<open>
  The loop \<^verbatim>\<open>n.Names = append(n.Names, name.Names[i].Value)\<close> keeps the value of each
  attribute and drops its type.
\<close>

definition ParseNameJSON :: "Name \<Rightarrow> JSONName" where
  "ParseNameJSON name =
     \<lparr> common_name = CommonName name,
       serial_number = Name.SerialNumber name,
       country = Join (elems (Country name)) '','',
       organization = Join (elems (Organization name)) '','',
       organizational_unit = Join (elems (OrganizationalUnit name)) '','',
       locality = Join (elems (Locality name)) '','',
       province = Join (elems (Province name)) '','',
       street_address = Join (elems (StreetAddress name)) '','',
       postal_code = Join (elems (PostalCode name)) '','',
       names = map Value (Names name) \<rparr>"

text \<open>\<open>json.Marshal\<close> of an attribute value and of a \<open>JSONName\<close> (compact, fields in order).\<close>

definition jsonValue :: "AttributeValue \<Rightarrow> string" where
  "jsonValue v =
     (case v of
        StringValue s \<Rightarrow> jsonString s
      | IntValue i \<Rightarrow> Itoa i
      | OIDValue oid \<Rightarrow> ''['' @ Join (map Itoa oid) '','' @ '']''
      | NilValue \<Rightarrow> ''null''
      | OtherValue t \<Rightarrow> t)"

definition jsonStringField :: "string \<Rightarrow> string \<Rightarrow> string list" where
  "jsonStringField k v = (if v = [] then [] else [jsonString k @ '':'' @ jsonString v])"

definition jsonMarshalName :: "JSONName \<Rightarrow> string" where
  "jsonMarshalName n =
     ''{'' @
     Join (jsonStringField ''common_name'' (common_name n)
         @ jsonStringField ''serial_number'' (serial_number n)
         @ jsonStringField ''country'' (country n)
         @ jsonStringField ''organization'' (organization n)
         @ jsonStringField ''organizational_unit'' (organizational_unit n)
         @ jsonStringField ''locality'' (locality n)
         @ jsonStringField ''province'' (province n)
         @ jsonStringField ''street_address'' (street_address n)
         @ jsonStringField ''postal_code'' (postal_code n)
         @ (if names n = [] then []
            else [jsonString ''names'' @ '':['' @ Join (map jsonValue (names n)) '','' @ '']'']))
       '',''
     @ ''}''"

text \<open>
  \<open>parseName\<close>: nil for a nil slice; else the loop
  \<^verbatim>\<open>if len(result) > 0 { result += "," }; result += s\<close>.
\<close>

definition parseName :: "string list option \<Rightarrow> string option" where
  "parseName input =
     (case input of
        None \<Rightarrow> None
      | Some l \<Rightarrow> Some (foldl (\<lambda>result s. (if result \<noteq> [] then result @ '','' else result) @ s) [] l))"

text \<open>
  \<open>buildSubject\<close>: \<open>CN\<close> is the address of the common name, \<open>ST\<close> is read from
  \<open>StreetAddress\<close>, \<open>Aggregated\<close> is the address of the JSON text (the error of
  \<open>json.Marshal\<close> is dropped; the values here marshal without error).
\<close>

definition buildSubject :: "Name \<Rightarrow> Subject" where
  "buildSubject certSubject =
     \<lparr> C = parseName (Country certSubject),
       CN = Some (CommonName certSubject),
       L = parseName (Locality certSubject),
       O' = parseName (Organization certSubject),
       OU = parseName (OrganizationalUnit certSubject),
       ST = parseName (StreetAddress certSubject),
       Aggregated = Some (jsonMarshalName (ParseNameJSON certSubject)) \<rparr>"

subsection \<open>Key identifiers, serial number, hashes\<close>

text \<open>
  \<open>formatKeyID\<close>: \<open>tmp\<close> is the hexadecimal text, and \<open>tmp[i:i+2]\<close> for \<open>i = 0, 2, ...\<close>
  are the two digits of each byte in turn.
\<close>

definition formatKeyID :: "bytes \<Rightarrow> string option" where
  "formatKeyID keyID =
     (let digest = foldl (\<lambda>digest b. digest @ '':'' @ hexByte b) [] keyID
      in Some (''keyid:'' @ TrimLeft digest '':''))"

definition formatKeyIDShort :: "bytes \<Rightarrow> string option" where
  "formatKeyIDShort keyID = Some (ToLower (EncodeToString keyID))"

definition formatSerialNumber :: "int option \<Rightarrow> string" where
  "formatSerialNumber serialNumber =
     (let sn = Sprintf_X serialNumber
      in if length sn mod 2 = 1 then ''0'' @ sn else sn)"

text \<open>
  \<open>calculateHash\<close>. The hasher is the function from the data written to the digest
  \<open>Sum(nil)\<close> returns; \<open>Write\<close> of a \<open>hash.Hash\<close> returns no error. The loop copies
  \<open>certHash\<close> byte by byte and writes a colon before each byte at an even index but 0.
\<close>

fun colonLoop :: "nat \<Rightarrow> string \<Rightarrow> string \<Rightarrow> string" where
  "colonLoop i [] result = result"
| "colonLoop i (c # rest) result =
     colonLoop (i + 1) rest
       ((if i mod 2 = 0 \<and> i > 0 then result @ '':'' else result) @ [c])"

definition calculateHash :: "bytes \<Rightarrow> (bytes \<Rightarrow> bytes) \<Rightarrow> string" where
  "calculateHash data certHasher =
     (let certHash = ToUpper (Sprintf_02x (certHasher data))
      in colonLoop 0 certHash [])"

definition calculateSHA1 :: "library \<Rightarrow> bytes \<Rightarrow> string" where
  "calculateSHA1 lib data = calculateHash data (sha1_Sum lib)"

definition calculateSHA256 :: "library \<Rightarrow> bytes \<Rightarrow> string" where
  "calculateSHA256 lib data = calculateHash data (sha256_Sum lib)"

subsection \<open>Key type, signature algorithm, key usage\<close>

text \<open>
  \<open>parseKeyType\<close>. When the key parses, the type assertion (\<open>rsaKey.(*rsa.PublicKey)\<close>
  and its like) panics on a key of another type; when it does not parse, the switch is
  left and the result is \<open>Unknown\<close>.
\<close>

definition parseKeyType :: "library \<Rightarrow> int \<Rightarrow> bytes \<Rightarrow> error + string" where
  "parseKeyType lib keyAlg rawKey =
     (if keyAlg = 0 then Inr ''Unknown''
      else if keyAlg = 1 then
        (case ParsePKIXPublicKey lib rawKey of
           None \<Rightarrow> Inr ''Unknown''
         | Some (RSAPublicKey n) \<Rightarrow> Inr (''RSA'' @ Itoa (BitLen n))
         | Some _ \<Rightarrow> Inl PanicTypeAssertion)
      else if keyAlg = 2 then
        (case ParsePKIXPublicKey lib rawKey of
           None \<Rightarrow> Inr ''Unknown''
         | Some (DSAPublicKey y) \<Rightarrow> Inr (''DSA'' @ Itoa (BitLen y))
         | Some _ \<Rightarrow> Inl PanicTypeAssertion)
      else if keyAlg = 3 then
        (case ParsePKIXPublicKey lib rawKey of
           None \<Rightarrow> Inr ''Unknown''
         | Some (ECDSAPublicKey x) \<Rightarrow> Inr (''ECDSA'' @ Itoa (BitLen x))
         | Some _ \<Rightarrow> Inl PanicTypeAssertion)
      else Inr ''Unknown'')"

definition parseSignatureAlgorithm :: "SignatureAlgorithm \<Rightarrow> string" where
  "parseSignatureAlgorithm signatureAlgoritm =
     (case signatureAlgoritm of
        MD2WithRSA \<Rightarrow> ''MD2WithRSA''
      | MD5WithRSA \<Rightarrow> ''MD5WithRSA''
      | SHA1WithRSA \<Rightarrow> ''SHA1WithRSA''
      | SHA256WithRSA \<Rightarrow> ''SHA256WithRSA''
      | SHA384WithRSA \<Rightarrow> ''SHA384WithRSA''
      | SHA512WithRSA \<Rightarrow> ''SHA512WithRSA''
      | SHA256WithRSAPSS \<Rightarrow> ''SHA256WithRSAPSS''
      | SHA384WithRSAPSS \<Rightarrow> ''SHA384WithRSAPSS''
      | SHA512WithRSAPSS \<Rightarrow> ''SHA512WithRSAPSS''
      | DSAWithSHA1 \<Rightarrow> ''DSAWithSHA1''
      | DSAWithSHA256 \<Rightarrow> ''DSAWithSHA256''
      | ECDSAWithSHA1 \<Rightarrow> ''ECDSAWithSHA1''
      | ECDSAWithSHA256 \<Rightarrow> ''ECDSAWithSHA256''
      | ECDSAWithSHA384 \<Rightarrow> ''ECDSAWithSHA384''
      | ECDSAWithSHA512 \<Rightarrow> ''ECDSAWithSHA512''
      | PureEd25519 \<Rightarrow> ''PureEd25519''
      | UnknownSignatureAlgorithm \<Rightarrow> ''unknown'')"

definition commaAppend :: "string \<Rightarrow> string \<Rightarrow> string" where
  "commaAppend buf s = (if length buf > 0 then buf @ '', '' @ s else buf @ s)"

text \<open>
  \<open>keyUsageToString\<close>: one test per bit, in this order; the masks are the constants
  \<open>x509.KeyUsageDigitalSignature = 1 << iota\<close> and so on.
\<close>

definition keyUsageNames :: "(int \<times> string) list" where
  "keyUsageNames =
     [(1, ''Digital Signature''), (2, ''Content Commitment''), (4, ''Key Encipherment''),
      (8, ''Data Encipherment''), (16, ''Key Agreement''), (32, ''Certificate Signing''),
      (64, ''CRL Signing''), (128, ''Encipher Only''), (256, ''Decipher Only'')]"

definition keyUsageToString :: "int \<Rightarrow> string" where
  "keyUsageToString k =
     foldl (\<lambda>buf (mask, name). if k AND mask \<noteq> 0 then commaAppend buf name else buf)
       [] keyUsageNames"

subsection \<open>leafCertFromX509cert\<close>

text \<open>
  The loop over \<open>leafCert.AllDomains\<close>, entered only when the common name is not empty
  and the certificate is no CA. Its state is \<open>wildcardCount\<close>, \<open>regDomainSlice\<close> and
  \<open>domainAlreadyAdded\<close>.
\<close>

fun sanLoop :: "library \<Rightarrow> string \<Rightarrow> string list \<Rightarrow> int \<times> string list \<times> bool
    \<Rightarrow> int \<times> string list \<times> bool" where
  "sanLoop lib cn [] st = st"
| "sanLoop lib cn (domain # rest) (wildcardCount, regDomainSlice, domainAlreadyAdded) =
     sanLoop lib cn rest
       (if Contains domain ''*'' then wildcardCount + 1 else wildcardCount,
        regDomainSlice @
          [if \<not> ParseIP lib domain then
             (case EffectiveTLDPlusOne lib domain of
                None \<Rightarrow> domain
              | Some regDomain \<Rightarrow> regDomain)
           else domain],
        (if domain = cn then True else domainAlreadyAdded))"

text \<open>
  The switch over the extensions of the certificate: one step per extension, on the
  \<open>Extensions\<close> record filled so far.
\<close>

definition emptyExtensions :: Extensions where
  "emptyExtensions =
     \<lparr> AuthorityInfoAccess = None, AuthorityKeyIdentifier = None, BasicConstraints = None,
       KeyUsage = None, SubjectAltName = None, SubjectKeyIdentifier = None,
       CTLPoisonByte = False \<rparr>"

definition extensionStep :: "Certificate \<Rightarrow> Extensions \<Rightarrow> Extension \<Rightarrow> Extensions" where
  "extensionStep cert exts extension =
     (if Id extension = OIDExtensionAuthorityKeyId then
        exts\<lparr>AuthorityKeyIdentifier := formatKeyIDShort (AuthorityKeyId cert)\<rparr>
      else if Id extension = OIDExtensionKeyUsage then
        exts\<lparr>KeyUsage := Some (keyUsageToString (Certificate.KeyUsage cert))\<rparr>
      else if Id extension = OIDExtensionSubjectKeyId then
        exts\<lparr>SubjectKeyIdentifier := formatKeyID (SubjectKeyId cert)\<rparr>
      else if Id extension = OIDExtensionBasicConstraints then
        exts\<lparr>BasicConstraints :=
          Some (ToUpper (''CA:'' @ (if Certificate.IsCA cert then ''true'' else ''false'')))\<rparr>
      else if Id extension = OIDExtensionSubjectAltName then
        exts\<lparr>SubjectAltName :=
          Some (foldl commaAppend []
                 (map (\<lambda>name. ''DNS:'' @ name) (elems (DNSNames cert))
                  @ map (\<lambda>email. ''email:'' @ email) (EmailAddresses cert)
                  @ map (\<lambda>ip. ''IP Address:'' @ ip) (IPAddresses cert)))\<rparr>
      else if Id extension = OIDExtensionAuthorityInfoAccess then
        exts\<lparr>AuthorityInfoAccess :=
          Some (foldl commaAppend []
                 (map (\<lambda>issuer. ''URI:'' @ issuer) (IssuingCertificateURL cert)
                  @ map (\<lambda>ocsp. ''URI:'' @ ocsp) (OCSPServer cert)))\<rparr>
      else if Id extension = OIDExtensionCTPoison then
        exts\<lparr>CTLPoisonByte := True\<rparr>
      else exts)"

text \<open>
  The validation type: the default, the chain of tests on the printed policy
  identifiers, the test for a subject without organization, the test for the
  jurisdiction identifier in the aggregated subject.
\<close>

definition policyValidationType :: "string \<Rightarrow> string" where
  "policyValidationType PolicyOIDSString =
     (if Contains PolicyOIDSString ''2.23.140.1.2.1'' then ''DV''
      else if Contains PolicyOIDSString ''2.23.140.1.2.2'' then ''OV''
      else if Contains PolicyOIDSString ''2.23.140.1.2.3'' then ''IV''
      else if Contains PolicyOIDSString ''2.23.140.1.1'' then ''EV''
      else ''OV'')"

definition validationType :: "int list list \<Rightarrow> string option \<Rightarrow> string \<Rightarrow> string" where
  "validationType policyIdentifiers subjectO aggregated =
     (let v = policyValidationType (Sprintf_d policyIdentifiers);
          v = (if subjectO = None then ''DV'' else v)
      in if Contains aggregated ''1.3.6.1.4.1.311.60.2.1.3'' then ''EV'' else v)"

definition certType :: "int \<Rightarrow> string list \<Rightarrow> string" where
  "certType wildcardCount allDomains =
     (if wildcardCount > 0 then ''Wildcard''
      else if length allDomains > 2 then ''Multi''
      else ''Single'')"

text \<open>
  The de-duplication of \<open>regDomainSlice\<close>: \<open>seenRegDomain\<close> is a \<open>map[string]bool\<close>, a
  missing key reads as \<open>false\<close>.
\<close>

definition seenBefore :: "(string \<rightharpoonup> bool) \<Rightarrow> string \<Rightarrow> bool" where
  "seenBefore seen v = (case seen v of None \<Rightarrow> False | Some b \<Rightarrow> b)"

fun dedupLoop :: "string list \<Rightarrow> (string \<rightharpoonup> bool) \<Rightarrow> string list \<Rightarrow> string list" where
  "dedupLoop [] seenRegDomain regDomainResult = regDomainResult"
| "dedupLoop (v # rest) seenRegDomain regDomainResult =
     (if \<not> seenBefore seenRegDomain v
      then dedupLoop rest (seenRegDomain(v \<mapsto> True)) (regDomainResult @ [v])
      else dedupLoop rest seenRegDomain regDomainResult)"

text \<open>
  The domains block: \<open>AllDomains\<close> from the DNS names (an empty list for nil), then, under
  the guard, the loop and the append of the common name. The result is
  \<open>wildcardCount\<close>, \<open>regDomainSlice\<close> and the final \<open>AllDomains\<close>.
\<close>

definition domains :: "library \<Rightarrow> Certificate \<Rightarrow> string \<Rightarrow> int \<times> string list \<times> string list" where
  "domains lib cert cn =
     (let allDomains = (case DNSNames cert of None \<Rightarrow> [] | Some dnsNames \<Rightarrow> dnsNames)
      in if cn \<noteq> [] \<and> \<not> Certificate.IsCA cert then
           (case sanLoop lib cn allDomains (0, [], False) of
              (wildcardCount, regDomainSlice, domainAlreadyAdded) \<Rightarrow>
                (wildcardCount, regDomainSlice,
                 if \<not> domainAlreadyAdded then allDomains @ [cn] else allDomains))
         else (0, [], allDomains))"

definition leafCertFromX509cert :: "library \<Rightarrow> catalog \<Rightarrow> Certificate \<Rightarrow> error + LeafCert" where
  "leafCertFromX509cert lib owners cert =
     andThen (parseKeyType lib (PublicKeyAlgorithm cert) (RawSubjectPublicKeyInfo cert))
       (\<lambda>keyType.
     let subject = buildSubject (Certificate.Subject cert) in
     andThen (deref (CN subject)) (\<lambda>cn.
     andThen (deref (Aggregated subject)) (\<lambda>aggregated.
     andThen (deref (formatKeyIDShort (AuthorityKeyId cert))) (\<lambda>leafAKI.
     case domains lib cert cn of (wildcardCount, regDomainSlice, allDomains) \<Rightarrow>
       Inr \<lparr> AllDomains = allDomains,
             AllRegDomains = dedupLoop regDomainSlice Map.empty [],
             Extensions = foldl (extensionStep cert) emptyExtensions (Certificate.Extensions cert),
             NotAfter = Certificate.NotAfter cert,
             NotBefore = Certificate.NotBefore cert,
             SerialNumber = formatSerialNumber (Certificate.SerialNumber cert),
             SignatureAlgorithm = parseSignatureAlgorithm (Certificate.SignatureAlgorithm cert),
             KeyType = keyType,
             IsCA = Certificate.IsCA cert,
             Subject = subject,
             Issuer = buildSubject (Certificate.Issuer cert),
             AsDER = base64_EncodeToString lib (Raw cert),
             Fingerprint = calculateSHA1 lib (Raw cert),
             SHA1 = calculateSHA1 lib (Raw cert),
             SHA256 = calculateSHA256 lib (Raw cert),
             ValidationType = validationType (PolicyIdentifiers cert) (O' subject) aggregated,
             CertType = certType wildcardCount allDomains,
             CertTypeExt =
               \<lparr> SANCount = int (length allDomains),
                 WildcardSANCount = wildcardCount,
                 SingleSANCount = int (length allDomains) - wildcardCount \<rparr>,
             CAOwner = (case lookupOwner owners leafAKI of
                          Some caOwnerCheck \<Rightarrow> caOwnerCheck
                        | None \<Rightarrow> ''unknown'') \<rparr>))))"

subsection \<open>parseCertificateChain, parseData, parseCertstreamEntry\<close>

fun parseCertificateChain :: "library \<Rightarrow> catalog \<Rightarrow> bytes list \<Rightarrow> error + LeafCert list" where
  "parseCertificateChain lib owners [] = Inr []"
| "parseCertificateChain lib owners (chainEntry # rest) =
     (case ParseCertificate lib chainEntry of
        Inl parseErr \<Rightarrow> Inl (ErrParseCertificate parseErr)
      | Inr myCert \<Rightarrow>
          andThen (leafCertFromX509cert lib owners myCert) (\<lambda>leafCert.
          andThen (parseCertificateChain lib owners rest) (\<lambda>chain.
          Inr (leafCert # chain))))"

text \<open>
  \<open>parseData\<close>. \<open>now\<close> is what \<open>time.Now().UnixMilli()\<close> returns during the call,
  \<open>owners\<close> the value of \<open>CAOwners\<close>. The switch yields the certificate pointer, the raw
  bytes and \<open>isPrecert\<close>; \<open>*cert\<close> is the dereference at the call of
  \<open>leafCertFromX509cert\<close>.
\<close>

definition parseData :: "library \<Rightarrow> catalog \<Rightarrow> int \<Rightarrow> RawLogEntry \<Rightarrow> string \<Rightarrow> string \<Rightarrow> string
    \<Rightarrow> error + Data" where
  "parseData lib owners now entry operatorName logName ctURL =
     (case ToLogEntry lib entry of
        Inl conversionErr \<Rightarrow> Inl (ErrConversion conversionErr)
      | Inr logEntry \<Rightarrow>
          andThen
            (case X509Cert logEntry of
               Some x \<Rightarrow> Inr (Some x, Raw x, False)
             | None \<Rightarrow>
                 (case Precert logEntry of
                    Some p \<Rightarrow> Inr (TBSCertificate p, Submitted p, True)
                  | None \<Rightarrow> Inl ErrNoCertificate))
            (\<lambda>(cert, rawData, isPrecert).
          andThen (deref cert) (\<lambda>c.
          andThen (leafCertFromX509cert lib owners c) (\<lambda>leaf.
          andThen (parseCertificateChain lib owners (LogEntry.Chain logEntry)) (\<lambda>chain.
          Inr \<lparr> CertIndex = Index entry,
                CertLink = ctURL @ ''/ct/v1/get-entries?start='' @ Itoa (Index entry)
                           @ ''&end='' @ Itoa (Index entry),
                Seen = real_of_int now / 1000,
                Source = \<lparr> Name = logName, URL = ctURL, Operator = operatorName,
                           NormalizedURL = normalizeCtlogURL ctURL \<rparr>,
                UpdateType = ''X509LogEntry'',
                LeafCert =
                  (if isPrecert
                   then leaf\<lparr> Fingerprint := calculateSHA1 lib rawData,
                              SHA1 := calculateSHA1 lib rawData,
                              SHA256 := calculateSHA256 lib rawData \<rparr>
                   else leaf)
                  \<lparr> AsDER := base64_EncodeToString lib (Cert entry) \<rparr>,
                Chain = chain \<rparr>)))))"

definition parseCertstreamEntry :: "library \<Rightarrow> catalog \<Rightarrow> int \<Rightarrow> RawLogEntry option \<Rightarrow> string
    \<Rightarrow> string \<Rightarrow> string \<Rightarrow> error + Entry" where
  "parseCertstreamEntry lib owners now rawEntry operatorName logname ctURL =
     (case rawEntry of
        None \<Rightarrow> Inl ErrEntryIsNil
      | Some e \<Rightarrow>
          andThen (parseData lib owners now e operatorName logname ctURL) (\<lambda>data.
          Inr \<lparr> Data = data, MessageType = ''certificate_update'' \<rparr>))"

section \<open>ct-watcher.go\<close>

subsection \<open>The callbacks of a worker\<close>

record worker =
  name :: string
  operatorName :: string
  ctURL :: string

text \<open>
  \<open>foundCertCallback\<close> and \<open>foundPrecertCallback\<close>: the result is the entry sent on
  \<open>entryChan\<close>, or \<open>None\<close> when the parse error is logged and nothing is sent. A panic
  of the parser is not recovered.
\<close>

definition stampUpdateType :: "string \<Rightarrow> error + Entry \<Rightarrow> error + Entry option" where
  "stampUpdateType updateType r =
     (case r of
        Inl parseErr \<Rightarrow> if isPanic parseErr then Inl parseErr else Inr None
      | Inr entry \<Rightarrow> Inr (Some (entry\<lparr>Data := (Data entry)\<lparr>UpdateType := updateType\<rparr>\<rparr>)))"

definition foundCertCallback :: "library \<Rightarrow> catalog \<Rightarrow> int \<Rightarrow> worker \<Rightarrow> RawLogEntry option
    \<Rightarrow> error + Entry option" where
  "foundCertCallback lib owners now w rawEntry =
     stampUpdateType ''X509LogEntry''
       (parseCertstreamEntry lib owners now rawEntry (operatorName w) (name w) (ctURL w))"

definition foundPrecertCallback :: "library \<Rightarrow> catalog \<Rightarrow> int \<Rightarrow> worker \<Rightarrow> RawLogEntry option
    \<Rightarrow> error + Entry option" where
  "foundPrecertCallback lib owners now w rawEntry =
     stampUpdateType ''PrecertLogEntry''
       (parseCertstreamEntry lib owners now rawEntry (operatorName w) (name w) (ctURL w))"

subsection \<open>runWorker: the start index\<close>

text \<open>
  The loop over \<open>config.AppConfig.CTLogs.StartIndex\<close>. The test is
  \<^verbatim>\<open>strings.Contains(w.ctURL, element)\<close>, on the whole element; \<open>logStartIndex[1]\<close>
  panics when the element has no space.
\<close>

fun startIndexLoop :: "string \<Rightarrow> string list \<Rightarrow> int \<Rightarrow> error + int" where
  "startIndexLoop url [] logStart = Inr logStart"
| "startIndexLoop url (element # rest) logStart =
     (if Contains url element then
        (let logStartIndex = Split element CHR '' '' in
         if length logStartIndex \<le> 1 then Inl PanicIndexOutOfRange
         else
           (let newStartIndex = Atoi (logStartIndex ! 1) in
            startIndexLoop url rest (if newStartIndex > 0 then newStartIndex else logStart)))
      else startIndexLoop url rest logStart)"

text \<open>
  \<open>logStart := int64(sth.TreeSize)\<close>, the tree size an unsigned 64-bit number, then the
  loop. The result is the \<open>StartIndex\<close> handed to the scanner.
\<close>

definition logStartIndex :: "worker \<Rightarrow> string list \<Rightarrow> 64 word \<Rightarrow> error + int" where
  "logStartIndex w StartIndex TreeSize = startIndexLoop (ctURL w) StartIndex (sint TreeSize)"

subsection \<open>DownloadAndParseCSV\<close>

text \<open>
  What the network returns. \<open>client.Get\<close> gives a transport error or a response with a
  status code and a body; the body is read through a \<open>csv.Reader\<close>, and is kept here as
  the results of the successive calls of \<open>reader.Read()\<close>, the end of the list being
  \<open>io.EOF\<close>. The function from the attempt number to the result of that attempt is a
  parameter.
\<close>

datatype csv_read = ReadError string | CSVRecord "string list"

datatype http_result = TransportError string | Response int "csv_read list"

text \<open>
  The retry loop, \<open>for attempt := 1; attempt <= maxRetries; attempt++\<close>: a response
  with status 200 leaves the loop; the last attempt returns the error; any other attempt
  sleeps and goes on. (The loop condition never fails: the pass with
  \<open>attempt = maxRetries\<close> breaks or returns. Were it to fail, \<open>resp\<close> would be nil at
  \<open>resp.Body\<close>.)
\<close>

function retryLoop :: "(nat \<Rightarrow> http_result) \<Rightarrow> nat \<Rightarrow> nat \<Rightarrow> error + csv_read list" where
  "retryLoop get maxRetries attempt =
     (if attempt \<le> maxRetries then
        (case get attempt of
           TransportError err \<Rightarrow>
             if attempt = maxRetries then Inl (ErrDownloadFailed err)
             else retryLoop get maxRetries (attempt + 1)
         | Response StatusCode body \<Rightarrow>
             if StatusCode = 200 then Inr body
             else if attempt = maxRetries then Inl (ErrStatusCode StatusCode)
             else retryLoop get maxRetries (attempt + 1))
      else Inl PanicNilDereference)"
  by pat_completeness auto
termination
  by (relation "measure (\<lambda>(get, maxRetries, attempt). Suc maxRetries - attempt)") auto

declare retryLoop.simps [simp del]

text \<open>
  The loop over the records after the first row. \<open>record[keyColIndex]\<close> panics when the
  record is too short (the reader returns records of the length of the first row).
\<close>

fun recordLoop :: "library \<Rightarrow> nat \<Rightarrow> nat \<Rightarrow> csv_read list \<Rightarrow> (string \<rightharpoonup> string)
    \<Rightarrow> error + (string \<rightharpoonup> string)" where
  "recordLoop lib keyColIndex valueColIndex [] result = Inr result"
| "recordLoop lib keyColIndex valueColIndex (ReadError err # rest) result =
     Inl (ErrReadRecord err)"
| "recordLoop lib keyColIndex valueColIndex (CSVRecord rec # rest) result =
     (if keyColIndex \<ge> length rec \<or> valueColIndex \<ge> length rec then Inl PanicIndexOutOfRange
      else
        (let decodedBytes = base64_DecodeString lib (rec ! keyColIndex);
             hexKey = ToLower (EncodeToString decodedBytes)
         in recordLoop lib keyColIndex valueColIndex rest
              (result(hexKey \<mapsto> rec ! valueColIndex))))"

text \<open>
  \<open>DownloadAndParseCSV\<close>. \<open>Inl\<close> of a returned error is the Go result \<open>(nil, err)\<close>,
  \<open>Inr m\<close> the result \<open>(m, nil)\<close>.
\<close>

definition DownloadAndParseCSV :: "library \<Rightarrow> (nat \<Rightarrow> http_result) \<Rightarrow> int \<Rightarrow> int \<Rightarrow> bool
    \<Rightarrow> error + (string \<rightharpoonup> string)" where
  "DownloadAndParseCSV lib get keyColIndex valueColIndex skipHeader =
     andThen (retryLoop get 3 1) (\<lambda>body.
       case body of
         [] \<Rightarrow> Inl (ErrFirstRow ''EOF'')
       | ReadError err # _ \<Rightarrow> Inl (ErrFirstRow err)
       | CSVRecord firstRow # rest \<Rightarrow>
           if keyColIndex < 0 \<or> keyColIndex \<ge> int (length firstRow) then Inl ErrKeyColumn
           else if valueColIndex < 0 \<or> valueColIndex \<ge> int (length firstRow)
             then Inl ErrValueColumn
           else
             recordLoop lib (nat keyColIndex) (nat valueColIndex) rest
               (if \<not> skipHeader
                then [firstRow ! nat keyColIndex \<mapsto> firstRow ! nat valueColIndex]
                else Map.empty))"

subsection \<open>addNewlyAvailableLogs\<close>

text \<open>
  The log list: \<open>getAllLogs\<close> returns an error, panics while reading the body, or
  returns the operators with their logs. Its outcome is a parameter.
\<close>

record Log =
  Description :: string
  URL :: string

record LogOperator =
  Name :: string
  Logs :: "Log list"

text \<open>
  The state the function changes: the workers of the watcher and the package-level map
  \<open>CAOwners\<close>.
\<close>

record Watcher =
  workers :: "worker list"
  CAOwners :: catalog

definition addLog :: "string \<Rightarrow> worker list \<Rightarrow> Log \<Rightarrow> worker list" where
  "addLog opName ws transparencyLog =
     (let newURL = normalizeCtlogURL (Log.URL transparencyLog);
          alreadyWatched = list_ex (\<lambda>ctWorker. normalizeCtlogURL (ctURL ctWorker) = newURL) ws
      in if \<not> alreadyWatched
         then ws @ [\<lparr> name = Description transparencyLog, operatorName = opName,
                      ctURL = Log.URL transparencyLog \<rparr>]
         else ws)"

definition addOperator :: "worker list \<Rightarrow> LogOperator \<Rightarrow> worker list" where
  "addOperator ws operator = foldl (addLog (LogOperator.Name operator)) ws (Logs operator)"

text \<open>
  \<^verbatim>\<open>CAOwners, _ = DownloadAndParseCSV(ccadbURL, 18, 0, true)\<close>: the map is assigned
  whatever the call returns, and the error is dropped. Then the log list is fetched and
  a worker is added for every log that is not watched yet. \<open>Inl\<close> is a panic.
\<close>

definition addNewlyAvailableLogs :: "library \<Rightarrow> (nat \<Rightarrow> http_result)
    \<Rightarrow> error + LogOperator list \<Rightarrow> Watcher \<Rightarrow> error + Watcher" where
  "addNewlyAvailableLogs lib get getAllLogs w =
     andThen
       (case DownloadAndParseCSV lib get 18 0 True of
          Inl err \<Rightarrow> if isPanic err then Inl err else Inr None
        | Inr m \<Rightarrow> Inr (Some m))
       (\<lambda>owners.
     let w = w\<lparr>CAOwners := owners\<rparr> in
     case getAllLogs of
       Inl err \<Rightarrow> if isPanic err then Inl err else Inr w
     | Inr logList \<Rightarrow> Inr (w\<lparr>workers := foldl addOperator (workers w) logList\<rparr>))"

section \<open>The specification's words\<close>

text \<open>
  Definitions that follow the wording of the specification, to compare the loops of the
  source with. The registrable domain of an entry: an IP literal passes through
  unchanged, a name maps to its public suffix plus one label when that resolves and stays
  as it is otherwise.
\<close>

definition registrable :: "library \<Rightarrow> string \<Rightarrow> string" where
  "registrable lib domain =
     (if ParseIP lib domain then domain
      else (case EffectiveTLDPlusOne lib domain of
              Some regDomain \<Rightarrow> regDomain
            | None \<Rightarrow> domain))"

text \<open>Removing duplicates, the first occurrence of each element kept in its place.\<close>

fun dedupFirst :: "'a list \<Rightarrow> 'a list" where
  "dedupFirst [] = []"
| "dedupFirst (x # xs) = x # dedupFirst (filter (\<lambda>y. y \<noteq> x) xs)"

text \<open>Colon-separated uppercase hexadecimal pairs of a digest.\<close>

definition colonHexUpper :: "bytes \<Rightarrow> string" where
  "colonHexUpper digest = Join (map (\<lambda>b. ToUpper (hexByte b)) digest) '':''"

text \<open>
  A parsed certificate, as far as the key is concerned: package \<open>x509\<close> computes
  \<open>PublicKeyAlgorithm\<close> and the key from the same \<open>SubjectPublicKeyInfo\<close>, so a key that
  parses has the type of the algorithm (1 is RSA, 2 is DSA, 3 is ECDSA).
\<close>

definition parsedKey :: "library \<Rightarrow> Certificate \<Rightarrow> bool" where
  "parsedKey lib cert =
     (case ParsePKIXPublicKey lib (RawSubjectPublicKeyInfo cert) of
        None \<Rightarrow> True
      | Some (RSAPublicKey n) \<Rightarrow> PublicKeyAlgorithm cert \<noteq> 2 \<and> PublicKeyAlgorithm cert \<noteq> 3
      | Some (DSAPublicKey y) \<Rightarrow> PublicKeyAlgorithm cert \<noteq> 1 \<and> PublicKeyAlgorithm cert \<noteq> 3
      | Some (ECDSAPublicKey x) \<Rightarrow> PublicKeyAlgorithm cert \<noteq> 1 \<and> PublicKeyAlgorithm cert \<noteq> 2
      | Some OtherPublicKey \<Rightarrow>
          PublicKeyAlgorithm cert \<noteq> 1 \<and> PublicKeyAlgorithm cert \<noteq> 2
          \<and> PublicKeyAlgorithm cert \<noteq> 3)"

section \<open>Example inputs\<close>

text \<open>
  The zero values of \<open>pkix.Name\<close> and \<open>x509.Certificate\<close>, from which the examples are
  written by updates.
\<close>

definition zeroName :: Name where
  "zeroName =
     \<lparr> Country = None, Organization = None, OrganizationalUnit = None, Locality = None,
       Province = None, StreetAddress = None, PostalCode = None, SerialNumber = [],
       CommonName = [], Names = [] \<rparr>"

definition zeroCertificate :: Certificate where
  "zeroCertificate =
     \<lparr> Raw = [], RawSubjectPublicKeyInfo = [], SignatureAlgorithm = UnknownSignatureAlgorithm,
       PublicKeyAlgorithm = 0, SerialNumber = None, Issuer = zeroName, Subject = zeroName,
       NotBefore = 0, NotAfter = 0, KeyUsage = 0, Extensions = [], IsCA = False,
       SubjectKeyId = [], AuthorityKeyId = [], OCSPServer = [], IssuingCertificateURL = [],
       DNSNames = None, EmailAddresses = [], IPAddresses = [], PolicyIdentifiers = [] \<rparr>"

text \<open>
  A certificate with three DNS names (a wildcard, its apex, an IP literal), a common name
  that is none of them, an organization, an RSA key and three extensions.
\<close>

definition certWildcard :: Certificate where
  "certWildcard =
     zeroCertificate
       \<lparr> Raw := [0x30, 0x82],
         RawSubjectPublicKeyInfo := [1],
         PublicKeyAlgorithm := 1,
         Certificate.SerialNumber := Some 0xABC,
         Certificate.Subject :=
           zeroName \<lparr> Organization := Some [''Acme''], CommonName := ''www.example.com'',
                      Names := [\<lparr> Type = [2, 5, 4, 10], Value = StringValue ''Acme'' \<rparr>,
                                \<lparr> Type = [2, 5, 4, 3],
                                  Value = StringValue ''www.example.com'' \<rparr>] \<rparr>,
         Certificate.KeyUsage := 5,
         Certificate.Extensions :=
           [\<lparr> Id = [2, 5, 29, 15], Critical = True, ExtnValue = [] \<rparr>,
            \<lparr> Id = [2, 5, 29, 17], Critical = False, ExtnValue = [] \<rparr>,
            \<lparr> Id = [2, 5, 29, 35], Critical = False, ExtnValue = [] \<rparr>],
         AuthorityKeyId := [0x1A, 0x2B, 0x3C],
         DNSNames := Some [''*.example.com'', ''example.com'', ''192.0.2.7''] \<rparr>"

text \<open>A certificate with one DNS name and no common name.\<close>

definition certNoCN :: Certificate where
  "certNoCN = zeroCertificate \<lparr> DNSNames := Some [''example.com''] \<rparr>"

text \<open>A certificate with a common name and no DNS name.\<close>

definition certCNOnly :: Certificate where
  "certCNOnly =
     zeroCertificate \<lparr> Certificate.Subject := zeroName \<lparr> CommonName := ''example.com'' \<rparr> \<rparr>"

text \<open>A certificate whose DNS names hold the same name twice.\<close>

definition certTwice :: Certificate where
  "certTwice =
     zeroCertificate
       \<lparr> Certificate.Subject := zeroName \<lparr> CommonName := ''a.example.com'' \<rparr>,
         DNSNames := Some [''a.example.com'', ''a.example.com''] \<rparr>"

text \<open>
  A certificate with the policy identifier 2.23.140.1.2.3 (individual validation), an
  organization in the subject and no jurisdiction attribute.
\<close>

definition certIV :: Certificate where
  "certIV =
     zeroCertificate
       \<lparr> Certificate.Subject :=
           zeroName \<lparr> Organization := Some [''Acme''], CommonName := ''example.com'',
                      Names := [\<lparr> Type = [2, 5, 4, 10], Value = StringValue ''Acme'' \<rparr>,
                                \<lparr> Type = [2, 5, 4, 3],
                                  Value = StringValue ''example.com'' \<rparr>] \<rparr>,
         DNSNames := Some [''example.com''],
         PolicyIdentifiers := [[2, 23, 140, 1, 2, 3]] \<rparr>"

text \<open>
  A certificate whose subject has the attribute 1.3.6.1.4.1.311.60.2.1.3
  (jurisdictionCountryName) with the value \<open>US\<close>, an organization, and no policy
  identifier.
\<close>

definition certJurisdiction :: Certificate where
  "certJurisdiction =
     zeroCertificate
       \<lparr> Certificate.Subject :=
           zeroName \<lparr> Organization := Some [''Acme''], CommonName := ''example.com'',
                      Names := [\<lparr> Type = [1, 3, 6, 1, 4, 1, 311, 60, 2, 1, 3],
                                  Value = StringValue ''US'' \<rparr>,
                                \<lparr> Type = [2, 5, 4, 10], Value = StringValue ''Acme'' \<rparr>,
                                \<lparr> Type = [2, 5, 4, 3],
                                  Value = StringValue ''example.com'' \<rparr>] \<rparr>,
         DNSNames := Some [''example.com''] \<rparr>"

text \<open>
  Two raw log entries: \<open>rawPrecert\<close>, which decodes to a precertificate whose submitted
  bytes differ from the bytes of its TBS certificate, and \<open>rawX509\<close>, which decodes to
  a certificate.
\<close>

definition rawPrecert :: RawLogEntry where
  "rawPrecert = \<lparr> Index = 42, Leaf = [1], Cert = [0x0A, 0x0B], Chain = [] \<rparr>"

definition rawX509 :: RawLogEntry where
  "rawX509 = \<lparr> Index = 7, Leaf = [0], Cert = [0x30, 0x82], Chain = [] \<rparr>"

text \<open>
  A library for the examples. The theorems hold for every library; these stand-ins only
  make the examples run: one IP literal, one public suffix, digests that are the first
  bytes of the data, hexadecimal text in place of base64.
\<close>

definition exampleLibrary :: library where
  "exampleLibrary =
     \<lparr> ParseIP = (\<lambda>s. s = ''192.0.2.7''),
       EffectiveTLDPlusOne =
         (\<lambda>domain. if HasSuffix domain ''example.com'' then Some ''example.com'' else None),
       sha1_Sum = (\<lambda>data. take 2 (data @ [0, 0])),
       sha256_Sum = (\<lambda>data. take 3 (data @ [0, 0, 0])),
       base64_EncodeToString = EncodeToString,
       base64_DecodeString = (\<lambda>s. map (\<lambda>c. of_nat (of_char c)) s),
       ParsePKIXPublicKey = (\<lambda>rawKey. if rawKey = [1] then Some (RSAPublicKey 255) else None),
       ParseCertificate = (\<lambda>der. Inl ''x509: malformed certificate''),
       ToLogEntry =
         (\<lambda>raw.
            if Leaf raw = [1] then
              Inr \<lparr> X509Cert = None,
                    Precert = Some \<lparr> Submitted = [0xDE, 0xAD, 0xBE],
                                     TBSCertificate = Some certWildcard \<rparr>,
                    Chain = [] \<rparr>
            else if Leaf raw = [0] then
              Inr \<lparr> X509Cert = Some certWildcard, Precert = None, Chain = [] \<rparr>
            else Inl ''unknown entry type'') \<rparr>"

text \<open>
  A watcher whose catalog knows one authority key, and a network on which every attempt
  to download the CSV fails.
\<close>

definition watcherWithCatalog :: Watcher where
  "watcherWithCatalog =
     \<lparr> workers = [], CAOwners = Some [''1a2b3c'' \<mapsto> ''Example CA''] \<rparr>"

definition networkDown :: "nat \<Rightarrow> http_result" where
  "networkDown attempt = TransportError ''dial tcp: i/o timeout''"

text \<open>A worker, and a configured start index whose first field is part of its URL.\<close>

definition exampleWorker :: worker where
  "exampleWorker =
     \<lparr> name = ''Example Log'', operatorName = ''Example'',
       ctURL = ''https://ct.example.com/log'' \<rparr>"

section \<open>Facts about the string functions\<close>










section \<open>Claims about normalizeCtlogURL\<close>




section \<open>Facts about the parser\<close>

lemma buildSubject_CN: "CN (buildSubject n) = Some (CommonName n)"
  by (simp add: buildSubject_def)

lemma buildSubject_Aggregated:
  "Aggregated (buildSubject n) = Some (jsonMarshalName (ParseNameJSON n))"
  by (simp add: buildSubject_def)

lemma buildSubject_O: "O' (buildSubject n) = parseName (Organization n)"
  by (simp add: buildSubject_def)

lemma sanLoop_result:
  "sanLoop lib cn ds (w, r, a) =
     (w + int (length (filter (\<lambda>d. Contains d ''*'') ds)),
      r @ map (registrable lib) ds,
      a \<or> cn \<in> set ds)"
  by (induction ds arbitrary: w r a) (auto simp: registrable_def)

lemma filter_unseen_upd:
  "filter (\<lambda>x. \<not> seenBefore (seen(v \<mapsto> True)) x) rest
     = filter (\<lambda>y. y \<noteq> v) (filter (\<lambda>x. \<not> seenBefore seen x) rest)"
  by (induction rest) (simp_all add: seenBefore_def)

lemma dedupLoop_dedupFirst:
  "dedupLoop xs seen res = res @ dedupFirst (filter (\<lambda>x. \<not> seenBefore seen x) xs)"
proof (induction xs arbitrary: seen res)
  case Nil
  show ?case by simp
next
  case (Cons v rest)
  show ?case
  proof (cases "seenBefore seen v")
    case True
    then show ?thesis by (simp add: Cons.IH)
  next
    case False
    then have "dedupLoop (v # rest) seen res = dedupLoop rest (seen(v \<mapsto> True)) (res @ [v])"
      by simp
    also have "\<dots> = (res @ [v])
        @ dedupFirst (filter (\<lambda>x. \<not> seenBefore (seen(v \<mapsto> True)) x) rest)"
      by (rule Cons.IH)
    also have "\<dots> = res @ dedupFirst (filter (\<lambda>x. \<not> seenBefore seen x) (v # rest))"
      using False by (simp only: filter_unseen_upd) simp
    finally show ?thesis .
  qed
qed

lemma dedupLoop_empty: "dedupLoop xs Map.empty [] = dedupFirst xs"
  by (simp add: dedupLoop_dedupFirst seenBefore_def)

lemma set_dedupFirst: "set (dedupFirst xs) = set xs"
  by (induction xs rule: dedupFirst.induct) auto

lemma distinct_dedupFirst: "distinct (dedupFirst xs)"
  by (induction xs rule: dedupFirst.induct) (auto simp: set_dedupFirst)

lemma dedupFirst_Nil_iff: "dedupFirst xs = [] \<longleftrightarrow> xs = []"
  by (cases xs) simp_all

lemma domains_eq:
  "domains lib cert cn =
     (if cn \<noteq> [] \<and> \<not> Certificate.IsCA cert
      then (int (length (filter (\<lambda>d. Contains d ''*'') (elems (DNSNames cert)))),
            map (registrable lib) (elems (DNSNames cert)),
            elems (DNSNames cert) @ (if cn \<in> set (elems (DNSNames cert)) then [] else [cn]))
      else (0, [], elems (DNSNames cert)))"
  by (simp add: domains_def sanLoop_result elems_def split: option.splits)

lemma leafCert_fields:
  assumes "leafCertFromX509cert lib owners cert = Inr lc"
  shows "AllDomains lc = snd (snd (domains lib cert (CommonName (Certificate.Subject cert))))"
    and "AllRegDomains lc =
           dedupLoop (fst (snd (domains lib cert (CommonName (Certificate.Subject cert)))))
             Map.empty []"
    and "ValidationType lc =
           validationType (PolicyIdentifiers cert)
             (parseName (Organization (Certificate.Subject cert)))
             (jsonMarshalName (ParseNameJSON (Certificate.Subject cert)))"
    and "LeafCert.Subject lc = buildSubject (Certificate.Subject cert)"
  using assms
  unfolding leafCertFromX509cert_def andThen_def deref_def formatKeyIDShort_def
  by (auto simp: buildSubject_CN buildSubject_Aggregated buildSubject_O Let_def
      split: sum.splits prod.splits)

lemma leafCert_keyType:
  "leafCertFromX509cert lib owners cert = Inl e \<longleftrightarrow>
     parseKeyType lib (PublicKeyAlgorithm cert) (RawSubjectPublicKeyInfo cert) = Inl e"
  unfolding leafCertFromX509cert_def andThen_def deref_def formatKeyIDShort_def
  by (auto simp: buildSubject_CN buildSubject_Aggregated Let_def
      split: sum.splits prod.splits)

lemma parseKeyType_panic:
  "parseKeyType lib keyAlg rawKey = Inl e \<Longrightarrow> e = PanicTypeAssertion"
  unfolding parseKeyType_def
  by (auto split: if_splits option.splits PublicKey.splits)

lemma parseKeyType_parsedKey:
  "parsedKey lib cert \<Longrightarrow>
     \<exists>keyType. parseKeyType lib (PublicKeyAlgorithm cert) (RawSubjectPublicKeyInfo cert)
       = Inr keyType"
  unfolding parseKeyType_def parsedKey_def
  by (auto split: if_splits option.splits PublicKey.splits)

section \<open>Claims about the domains\<close>

lemma AllRegDomains_eq:
  assumes "leafCertFromX509cert lib owners cert = Inr lc"
  shows "AllRegDomains lc =
           (if CommonName (Certificate.Subject cert) \<noteq> [] \<and> \<not> Certificate.IsCA cert
            then dedupFirst (map (registrable lib) (elems (DNSNames cert)))
            else [])"
  using leafCert_fields(2) [OF assms]
  by (simp add: domains_eq dedupLoop_empty)

lemma certWildcard_parses: "\<not> isl (leafCertFromX509cert exampleLibrary None certWildcard)"
  by code_simp

text \<open>
  C4 (as amended). The claim derives \<open>all_reg_domains\<close> from \<open>all_domains\<close> for every
  certificate. The source fills it in the loop over the DNS names, which runs before the
  common name is appended and only when the common name is not empty and the certificate
  is no CA. What holds: for a certificate with a common name that is no CA,
  \<open>all_reg_domains\<close> is the DNS names, each mapped to its registrable domain (kept as
  it is when that does not resolve or when it is an IP literal), with duplicates removed
  and first occurrences kept; in particular it is non-empty when there is a DNS name.
\<close>

theorem all_reg_domains_guarded:
  assumes "leafCertFromX509cert lib owners cert = Inr lc"
    and "CommonName (Certificate.Subject cert) \<noteq> []"
    and "\<not> Certificate.IsCA cert"
  shows "AllRegDomains lc = dedupFirst (map (registrable lib) (elems (DNSNames cert)))
       \<and> (elems (DNSNames cert) \<noteq> [] \<longrightarrow> AllRegDomains lc \<noteq> [])"
  using AllRegDomains_eq [OF assms(1)] assms(2,3)
  by (simp add: dedupFirst_Nil_iff)

theorem all_reg_domains_guarded_witness:
  "\<exists>lc. leafCertFromX509cert exampleLibrary None certWildcard = Inr lc
     \<and> AllRegDomains lc = [''example.com'', ''192.0.2.7'']
     \<and> AllRegDomains lc \<noteq> []"
proof -
  obtain lc where lc: "leafCertFromX509cert exampleLibrary None certWildcard = Inr lc"
    using certWildcard_parses by (cases "leafCertFromX509cert exampleLibrary None certWildcard") auto
  have cn: "CommonName (Certificate.Subject certWildcard) \<noteq> []"
    by code_simp
  have ca: "\<not> Certificate.IsCA certWildcard"
    by code_simp
  have regs: "dedupFirst (map (registrable exampleLibrary) (elems (DNSNames certWildcard)))
      = [''example.com'', ''192.0.2.7'']"
    by code_simp
  from all_reg_domains_guarded [OF lc cn ca] regs
  have "AllRegDomains lc = [''example.com'', ''192.0.2.7'']" by simp
  with lc show ?thesis by simp
qed

text \<open>
  C4 as stated fails twice. On a certificate with a common name and no DNS name,
  \<open>all_domains\<close> is the common name, whose registrable domain resolves, and
  \<open>all_reg_domains\<close> is empty. On a certificate with one DNS name and no common name,
  \<open>all_domains\<close> is that name and \<open>all_reg_domains\<close> is empty again.
\<close>

theorem all_reg_domains_counterexample:
  "map_sum id (\<lambda>lc. (AllDomains lc, AllRegDomains lc))
       (leafCertFromX509cert exampleLibrary None certCNOnly)
     = Inr ([''example.com''], [])
   \<and> map_sum id (\<lambda>lc. (AllDomains lc, AllRegDomains lc))
       (leafCertFromX509cert exampleLibrary None certNoCN)
     = Inr ([''example.com''], [])
   \<and> dedupFirst (map (registrable exampleLibrary) [''example.com'']) = [''example.com'']"
  by code_simp

text \<open>
  C5 (as amended). The source never removes a duplicate from the DNS names. What holds:
  \<open>all_domains\<close> is the list of DNS names as the certificate has it, order and
  repetitions kept, with the subject's common name appended at the end if and only if
  the common name is not empty, is not among the DNS names, and the certificate is no
  CA. No entry appears twice when no DNS name does.
\<close>

theorem all_domains_shape:
  assumes "leafCertFromX509cert lib owners cert = Inr lc"
  shows "AllDomains lc =
           elems (DNSNames cert)
           @ (if CommonName (Certificate.Subject cert) \<noteq> []
                 \<and> CommonName (Certificate.Subject cert) \<notin> set (elems (DNSNames cert))
                 \<and> \<not> Certificate.IsCA cert
              then [CommonName (Certificate.Subject cert)] else [])
       \<and> (distinct (elems (DNSNames cert)) \<longrightarrow> distinct (AllDomains lc))"
  using leafCert_fields(1) [OF assms]
  by (simp add: domains_eq)

theorem all_domains_shape_witness:
  "\<exists>lc. leafCertFromX509cert exampleLibrary None certWildcard = Inr lc
     \<and> AllDomains lc = [''*.example.com'', ''example.com'', ''192.0.2.7'', ''www.example.com'']
     \<and> distinct (AllDomains lc)"
proof -
  obtain lc where lc: "leafCertFromX509cert exampleLibrary None certWildcard = Inr lc"
    using certWildcard_parses by (cases "leafCertFromX509cert exampleLibrary None certWildcard") auto
  have sans: "elems (DNSNames certWildcard) = [''*.example.com'', ''example.com'', ''192.0.2.7'']"
    by code_simp
  have cn: "CommonName (Certificate.Subject certWildcard) = ''www.example.com''"
    by code_simp
  have ca: "\<not> Certificate.IsCA certWildcard"
    by code_simp
  from all_domains_shape [OF lc] have
    "AllDomains lc = [''*.example.com'', ''example.com'', ''192.0.2.7'', ''www.example.com'']"
    unfolding sans cn using ca by simp
  with lc show ?thesis by simp
qed

text \<open>
  C5 as stated fails on a certificate that lists the same DNS name twice: the name is
  twice in \<open>all_domains\<close>.
\<close>

theorem all_domains_counterexample:
  "map_sum id AllDomains (leafCertFromX509cert exampleLibrary None certTwice)
     = Inr [''a.example.com'', ''a.example.com'']
   \<and> \<not> distinct [''a.example.com'', ''a.example.com'']"
  by code_simp

section \<open>Claims about the subject and the validation type\<close>

text \<open>
  C10. \<open>buildSubject\<close> returns a subject whose \<open>CN\<close> and \<open>Aggregated\<close> pointers are
  not nil, for every \<open>pkix.Name\<close>; so \<open>leafCertFromX509cert\<close> never panics on a nil
  dereference, and on a parsed certificate (one whose key, when it parses, has the type
  of its algorithm) it returns a leaf certificate.
\<close>

theorem buildSubject_pointers_never_nil:
  "CN (buildSubject certSubject) \<noteq> None
   \<and> Aggregated (buildSubject certSubject) \<noteq> None
   \<and> leafCertFromX509cert lib owners cert \<noteq> Inl PanicNilDereference
   \<and> (parsedKey lib cert \<longrightarrow> (\<exists>lc. leafCertFromX509cert lib owners cert = Inr lc))"
proof (intro conjI impI)
  show "CN (buildSubject certSubject) \<noteq> None"
    by (simp add: buildSubject_CN)
  show "Aggregated (buildSubject certSubject) \<noteq> None"
    by (simp add: buildSubject_Aggregated)
  show "leafCertFromX509cert lib owners cert \<noteq> Inl PanicNilDereference"
  proof
    assume "leafCertFromX509cert lib owners cert = Inl PanicNilDereference"
    then have "parseKeyType lib (PublicKeyAlgorithm cert) (RawSubjectPublicKeyInfo cert)
        = Inl PanicNilDereference"
      by (simp only: leafCert_keyType)
    then have "PanicNilDereference = PanicTypeAssertion"
      by (rule parseKeyType_panic)
    then show False by simp
  qed
next
  assume "parsedKey lib cert"
  then obtain keyType where
    k: "parseKeyType lib (PublicKeyAlgorithm cert) (RawSubjectPublicKeyInfo cert) = Inr keyType"
    using parseKeyType_parsedKey by blast
  show "\<exists>lc. leafCertFromX509cert lib owners cert = Inr lc"
  proof (cases "leafCertFromX509cert lib owners cert")
    case (Inl e)
    then have "parseKeyType lib (PublicKeyAlgorithm cert) (RawSubjectPublicKeyInfo cert) = Inl e"
      by (simp only: leafCert_keyType)
    with k show ?thesis by simp
  next
    case (Inr lc)
    then show ?thesis by blast
  qed
qed

theorem buildSubject_pointers_never_nil_witness:
  "CN (buildSubject (Certificate.Subject certWildcard)) \<noteq> None
   \<and> Aggregated (buildSubject (Certificate.Subject certWildcard)) \<noteq> None
   \<and> leafCertFromX509cert exampleLibrary None certWildcard \<noteq> Inl PanicNilDereference
   \<and> (\<exists>lc. leafCertFromX509cert exampleLibrary None certWildcard = Inr lc)"
proof -
  have "parsedKey exampleLibrary certWildcard"
    by code_simp
  with buildSubject_pointers_never_nil
    [of "Certificate.Subject certWildcard" exampleLibrary None certWildcard]
  show ?thesis by blast
qed

subsection \<open>The printed policy identifiers hold no dot\<close>

lemma Contains_set: "Contains s sub \<Longrightarrow> set sub \<subseteq> set s"
proof (induction s)
  case Nil
  then show ?case by simp
next
  case (Cons c s)
  from Cons.prems have "HasPrefix (c # s) sub \<or> Contains s sub" by simp
  then show ?case
  proof
    assume "HasPrefix (c # s) sub"
    then have "take (length sub) (c # s) = sub" by (simp add: HasPrefix_def)
    then have "set sub = set (take (length sub) (c # s))" by simp
    also have "\<dots> \<subseteq> set (c # s)" by (rule set_take_subset)
    finally show ?thesis .
  next
    assume "Contains s sub"
    with Cons.IH show ?thesis by auto
  qed
qed

lemma set_Join: "set (Join xs sep) \<subseteq> set sep \<union> \<Union> (set ` set xs)"
  by (induction xs sep rule: Join.induct) auto

lemma set_digits10: "set (digits10 n) \<subseteq> set ''0123456789''"
proof (induction n rule: digits10.induct)
  case (1 n)
  have digit: "''0123456789'' ! k \<in> set ''0123456789''" if "k < 10" for k
    using that by (intro nth_mem) simp
  show ?case
  proof (cases "n < 10")
    case True
    then show ?thesis using digit [of n] by (subst digits10.simps) simp
  next
    case False
    have "n mod 10 < 10" by simp
    with False "1.IH" digit [of "n mod 10"] show ?thesis
      by (subst digits10.simps) simp
  qed
qed

lemma dot_not_in_Itoa: "CHR ''.'' \<notin> set (Itoa i)"
proof -
  have "CHR ''.'' \<notin> set ''0123456789''" by simp
  then have "CHR ''.'' \<notin> set (digits10 n)" for n
    using set_digits10 [of n] by blast
  then show ?thesis by (simp add: Itoa_def)
qed

lemma dot_not_in_Sprintf_d_ints: "CHR ''.'' \<notin> set (Sprintf_d_ints oid)"
proof -
  have "CHR ''.'' \<notin> set (Join (map Itoa oid) '' '')"
    using set_Join [of "map Itoa oid" "'' ''"] dot_not_in_Itoa by auto
  then show ?thesis by (simp add: Sprintf_d_ints_def)
qed

lemma dot_not_in_Sprintf_d: "CHR ''.'' \<notin> set (Sprintf_d oids)"
proof -
  have "CHR ''.'' \<notin> set (Join (map Sprintf_d_ints oids) '' '')"
    using set_Join [of "map Sprintf_d_ints oids" "'' ''"] dot_not_in_Sprintf_d_ints by auto
  then show ?thesis by (simp add: Sprintf_d_def)
qed

lemma not_Contains_dotted:
  "CHR ''.'' \<in> set sub \<Longrightarrow> \<not> Contains (Sprintf_d oids) sub"
  using Contains_set dot_not_in_Sprintf_d by blast

text \<open>
  So no test of the chain on the policy identifiers succeeds, whatever the certificate:
  the validation type never depends on them.
\<close>

lemma policyValidationType_printed: "policyValidationType (Sprintf_d oids) = ''OV''"
  by (simp add: policyValidationType_def not_Contains_dotted)

lemma validationType_eq:
  "validationType oids subjectO aggregated =
     (if Contains aggregated ''1.3.6.1.4.1.311.60.2.1.3'' then ''EV''
      else if subjectO = None then ''DV'' else ''OV'')"
  by (simp add: validationType_def policyValidationType_printed)

text \<open>
  C2, at a certificate that breaks it. The certificate has the policy identifier
  2.23.140.1.2.3, an organization in its subject and no jurisdiction identifier in the
  aggregated subject. The policy identifiers are printed \<open>[[2 23 140 1 2 3]]\<close>, the
  test for \<open>2.23.140.1.2.3\<close> fails, and the validation type stays \<open>OV\<close>, where the
  claim says \<open>IV\<close>.
\<close>

theorem policy_identifier_iv_gives_ov:
  "[2, 23, 140, 1, 2, 3] \<in> set (PolicyIdentifiers certIV)
   \<and> Sprintf_d (PolicyIdentifiers certIV) = ''[[2 23 140 1 2 3]]''
   \<and> map_sum id
        (\<lambda>lc. (O' (LeafCert.Subject lc) \<noteq> None,
               map_option (\<lambda>aggregated. Contains aggregated ''1.3.6.1.4.1.311.60.2.1.3'')
                 (Aggregated (LeafCert.Subject lc)),
               ValidationType lc))
        (leafCertFromX509cert exampleLibrary None certIV)
      = Inr (True, Some False, ''OV'')"
  by code_simp

text \<open>
  C3, at a certificate that breaks it. The subject has an attribute of type
  1.3.6.1.4.1.311.60.2.1.3 with the value \<open>US\<close>. \<open>ParseNameJSON\<close> keeps the values of
  the attributes only, so the aggregated subject does not contain the identifier, and
  the validation type is \<open>OV\<close>, where the claim says \<open>EV\<close>.
\<close>

theorem jurisdiction_attribute_gives_ov:
  "[1, 3, 6, 1, 4, 1, 311, 60, 2, 1, 3]
      \<in> set (map Type (Names (Certificate.Subject certJurisdiction)))
   \<and> map_sum id
        (\<lambda>lc. (map_option (\<lambda>aggregated. Contains aggregated ''1.3.6.1.4.1.311.60.2.1.3'')
                 (Aggregated (LeafCert.Subject lc)),
               ValidationType lc))
        (leafCertFromX509cert exampleLibrary None certJurisdiction)
      = Inr (Some False, ''OV'')
   \<and> map jsonValue (names (ParseNameJSON (Certificate.Subject certJurisdiction)))
      = [jsonString ''US'', jsonString ''Acme'', jsonString ''example.com'']"
  by code_simp

section \<open>Claims about the hashes of a precertificate\<close>

lemma Join_Cons_concat: "Join (p # ps) sep = p @ concat (map (\<lambda>q. sep @ q) ps)"
  by (induction ps arbitrary: p) simp_all

lemma colonLoop_pairs:
  assumes "k > 0"
  shows "colonLoop (2 * k) (concat (map (\<lambda>b. [f b, g b]) bs)) acc
           = acc @ concat (map (\<lambda>b. '':'' @ [f b, g b]) bs)"
  using assms
proof (induction bs arbitrary: k acc)
  case Nil
  show ?case by simp
next
  case (Cons b bs)
  have "colonLoop (2 * k) (concat (map (\<lambda>b. [f b, g b]) (b # bs))) acc
      = colonLoop (2 * (k + 1)) (concat (map (\<lambda>b. [f b, g b]) bs)) (acc @ '':'' @ [f b, g b])"
    using Cons.prems by simp
  also have "\<dots> = (acc @ '':'' @ [f b, g b]) @ concat (map (\<lambda>b. '':'' @ [f b, g b]) bs)"
    by (rule Cons.IH) simp
  finally show ?case by simp
qed

lemma colonLoop_Join:
  "colonLoop 0 (concat (map (\<lambda>b. [f b, g b]) bs)) [] = Join (map (\<lambda>b. [f b, g b]) bs) '':''"
proof (cases bs)
  case Nil
  then show ?thesis by simp
next
  case (Cons b bs')
  have "colonLoop 0 (concat (map (\<lambda>b. [f b, g b]) (b # bs'))) []
      = colonLoop (2 * 1) (concat (map (\<lambda>b. [f b, g b]) bs')) [f b, g b]"
    by (simp add: numeral_2_eq_2)
  also have "\<dots> = [f b, g b] @ concat (map (\<lambda>b. '':'' @ [f b, g b]) bs')"
    by (rule colonLoop_pairs) simp
  also have "\<dots> = Join (map (\<lambda>b. [f b, g b]) (b # bs')) '':''"
    by (simp add: Join_Cons_concat comp_def)
  finally show ?thesis using Cons by simp
qed

lemma calculateHash_colonHexUpper: "calculateHash data hasher = colonHexUpper (hasher data)"
proof -
  have "ToUpper (Sprintf_02x bs)
      = concat (map (\<lambda>b. [upperByte (hexdigit (unat b div 16)),
                            upperByte (hexdigit (unat b mod 16))]) bs)" for bs
    by (simp add: ToUpper_def Sprintf_02x_def EncodeToString_def hexByte_def map_concat comp_def)
  moreover have "colonHexUpper bs
      = Join (map (\<lambda>b. [upperByte (hexdigit (unat b div 16)),
                          upperByte (hexdigit (unat b mod 16))]) bs) '':''" for bs
    by (simp add: colonHexUpper_def ToUpper_def hexByte_def)
  ultimately show ?thesis
    by (simp add: calculateHash_def colonLoop_Join)
qed

text \<open>
  C7. For a raw entry that decodes to a precertificate, the event the worker emits has
  \<open>sha1\<close> and \<open>sha256\<close> equal to the colon-separated uppercase hexadecimal digest of
  SHA-1 and SHA-256 of the submitted bytes (\<open>logEntry.Precert.Submitted.Data\<close>), not of
  the TBS certificate, and \<open>fingerprint\<close> equals \<open>sha1\<close>.
\<close>

theorem precert_hashes_over_submitted:
  assumes "ToLogEntry lib raw = Inr logEntry"
    and "X509Cert logEntry = None"
    and "Precert logEntry = Some precert"
    and "foundPrecertCallback lib owners now w (Some raw) = Inr (Some entry)"
  shows "SHA1 (LeafCert (Data entry)) = colonHexUpper (sha1_Sum lib (Submitted precert))
       \<and> SHA256 (LeafCert (Data entry)) = colonHexUpper (sha256_Sum lib (Submitted precert))
       \<and> Fingerprint (LeafCert (Data entry)) = SHA1 (LeafCert (Data entry))"
  using assms
  unfolding foundPrecertCallback_def stampUpdateType_def parseCertstreamEntry_def parseData_def
    andThen_def deref_def calculateSHA1_def calculateSHA256_def
  by (auto simp: calculateHash_colonHexUpper split: sum.splits option.splits if_splits)

lemma rawPrecert_emitted:
  "\<not> isl (foundPrecertCallback exampleLibrary None 1700000000000 exampleWorker (Some rawPrecert))
   \<and> map_sum id Option.is_none
        (foundPrecertCallback exampleLibrary None 1700000000000 exampleWorker (Some rawPrecert))
      = Inr False"
  by code_simp

theorem precert_hashes_over_submitted_witness:
  "\<exists>entry. foundPrecertCallback exampleLibrary None 1700000000000 exampleWorker (Some rawPrecert)
        = Inr (Some entry)
     \<and> SHA1 (LeafCert (Data entry)) = ''DE:AD''
     \<and> SHA256 (LeafCert (Data entry)) = ''DE:AD:BE''
     \<and> Fingerprint (LeafCert (Data entry)) = SHA1 (LeafCert (Data entry))"
proof -
  obtain entry where e:
    "foundPrecertCallback exampleLibrary None 1700000000000 exampleWorker (Some rawPrecert)
       = Inr (Some entry)"
    using rawPrecert_emitted
    by (cases "foundPrecertCallback exampleLibrary None 1700000000000 exampleWorker
          (Some rawPrecert)") (auto simp: Option.is_none_def)
  have le: "ToLogEntry exampleLibrary rawPrecert =
      Inr \<lparr> X509Cert = None,
            Precert = Some \<lparr> Submitted = [0xDE, 0xAD, 0xBE],
                             TBSCertificate = Some certWildcard \<rparr>,
            Chain = [] \<rparr>"
    by (simp add: exampleLibrary_def rawPrecert_def)
  have d1: "colonHexUpper (sha1_Sum exampleLibrary [0xDE, 0xAD, 0xBE]) = ''DE:AD''"
    by code_simp
  have d2: "colonHexUpper (sha256_Sum exampleLibrary [0xDE, 0xAD, 0xBE]) = ''DE:AD:BE''"
    by code_simp
  from precert_hashes_over_submitted [OF le _ _ e] d1 d2 e show ?thesis by simp
qed

section \<open>Claims about determinism\<close>

text \<open>
  C8 (as amended). The parser reads the wall clock, so two invocations need not agree
  on \<open>seen\<close>. What holds: for the same raw entry, the same operator, log name and URL
  and the same catalog, the result at one clock reading is the result at any other with
  \<open>seen\<close> replaced: the same error, or entries equal in every field but \<open>data.seen\<close>
  (and equal there too when the clock readings are equal).
\<close>

theorem parse_depends_on_clock_in_seen_only:
  "parseCertstreamEntry lib owners t2 rawEntry operator logname url =
     map_sum id (\<lambda>entry. entry\<lparr>Data := (Data entry)\<lparr>Seen := real_of_int t2 / 1000\<rparr>\<rparr>)
       (parseCertstreamEntry lib owners t1 rawEntry operator logname url)"
  unfolding parseCertstreamEntry_def parseData_def andThen_def
  by (auto split: sum.splits option.splits prod.splits)

text \<open>
  C8 as stated fails: the same raw entry parsed at the clock readings 1000 ms and
  2000 ms gives entries with \<open>seen\<close> 1 and 2.
\<close>

theorem parse_twice_counterexample:
  "map_sum id (\<lambda>entry. Seen (Data entry))
       (parseCertstreamEntry exampleLibrary None 1000 (Some rawX509)
          ''Example'' ''Example Log'' ''https://ct.example.com/log'') = Inr 1
   \<and> map_sum id (\<lambda>entry. Seen (Data entry))
       (parseCertstreamEntry exampleLibrary None 2000 (Some rawX509)
          ''Example'' ''Example Log'' ''https://ct.example.com/log'') = Inr 2
   \<and> parseCertstreamEntry exampleLibrary None 1000 (Some rawX509)
          ''Example'' ''Example Log'' ''https://ct.example.com/log''
      \<noteq> parseCertstreamEntry exampleLibrary None 2000 (Some rawX509)
          ''Example'' ''Example Log'' ''https://ct.example.com/log''"
proof -
  have a: "map_sum id (\<lambda>entry. Seen (Data entry))
       (parseCertstreamEntry exampleLibrary None 1000 (Some rawX509)
          ''Example'' ''Example Log'' ''https://ct.example.com/log'') = Inr 1"
    by code_simp
  have b: "map_sum id (\<lambda>entry. Seen (Data entry))
       (parseCertstreamEntry exampleLibrary None 2000 (Some rawX509)
          ''Example'' ''Example Log'' ''https://ct.example.com/log'') = Inr 2"
    by code_simp
  from a b show ?thesis by auto
qed

section \<open>The refresh of the catalog and the start index\<close>

text \<open>
  C1, at an input that breaks it. The catalog maps \<open>1a2b3c\<close> to an owner; every
  attempt to download the CSV fails, so \<open>DownloadAndParseCSV\<close> returns nil and an
  error. \<open>addNewlyAvailableLogs\<close> assigns the nil map to \<open>CAOwners\<close>: the previous
  contents are gone, where the claim says they are retained.
\<close>

theorem failed_refresh_drops_catalog:
  "map_sum id (\<lambda>m. ()) (DownloadAndParseCSV exampleLibrary networkDown 18 0 True)
     = Inl (ErrDownloadFailed ''dial tcp: i/o timeout'')
   \<and> lookupOwner (CAOwners watcherWithCatalog) ''1a2b3c'' = Some ''Example CA''
   \<and> map_sum id (\<lambda>w. Option.is_none (CAOwners w))
        (addNewlyAvailableLogs exampleLibrary networkDown (Inr []) watcherWithCatalog)
      = Inr True
   \<and> map_sum id (\<lambda>w. lookupOwner (CAOwners w) ''1a2b3c'')
        (addNewlyAvailableLogs exampleLibrary networkDown (Inr []) watcherWithCatalog)
      = Inr None"
  by code_simp

text \<open>The owner of the same certificate before and after the failed refresh.\<close>

lemma owner_before_and_after_failed_refresh:
  "map_sum id CAOwner
       (leafCertFromX509cert exampleLibrary (CAOwners watcherWithCatalog) certWildcard)
     = Inr ''Example CA''
   \<and> map_sum id CAOwner (leafCertFromX509cert exampleLibrary None certWildcard)
     = Inr ''unknown''"
  by code_simp

text \<open>
  C6, at an input that breaks it. The configured token is \<open>ct.example.com 100\<close>: its
  first field is part of the worker's URL and its second field is 100. The source tests
  whether the URL contains the whole token, which it does not, and the start index stays
  the tree size 5000, where the claim says 100.
\<close>

theorem start_index_token_not_applied:
  "Contains (ctURL exampleWorker) (Split ''ct.example.com 100'' CHR '' '' ! 0)
   \<and> Atoi (Split ''ct.example.com 100'' CHR '' '' ! 1) = 100
   \<and> logStartIndex exampleWorker [''ct.example.com 100''] 5000 = Inr 5000"
  by code_simp

text \<open>A token that is part of the URL has no second field: the index expression panics.\<close>

lemma start_index_token_without_space_panics:
  "logStartIndex exampleWorker [''ct.example.com''] 5000 = Inl PanicIndexOutOfRange"
  by code_simp

end
